theory Spec2Isabelle
  imports Main
begin

section \<open>JavaScript values\<close>

text \<open>
  The values \<^verbatim>\<open>response.json()\<close> can produce, and \<^verbatim>\<open>undefined\<close>, which reading a
  property that is not there produces. A number stands for the parsed value; this code only
  ever tests a number for being zero. An object is the list of its properties in the order
  of the JSON text.
\<close>

datatype jsval =
    JUndefined
  | JNull
  | JBool bool
  | JNum int
  | JStr string
  | JArr "jsval list"
  | JObj "(string \<times> jsval) list"

text \<open>An exception or a rejected promise: an \<^verbatim>\<open>Error\<close> with its \<^verbatim>\<open>message\<close>, the one property
  of it this code reads.\<close>

datatype js_error = JsError (message: string)

text \<open>The conversion to boolean of \<^verbatim>\<open>if (v)\<close>, \<^verbatim>\<open>!v\<close> and \<^verbatim>\<open>a || b\<close>.\<close>

fun truthy :: "jsval \<Rightarrow> bool" where
  "truthy JUndefined = False"
| "truthy JNull = False"
| "truthy (JBool b) = b"
| "truthy (JNum n) = (n \<noteq> 0)"
| "truthy (JStr s) = (s \<noteq> [])"
| "truthy (JArr xs) = True"
| "truthy (JObj kvs) = True"

text \<open>
  \<^verbatim>\<open>v.k\<close> for the property names this code reads (\<^verbatim>\<open>urls\<close>, \<^verbatim>\<open>username\<close>,
  \<^verbatim>\<open>credential\<close>): a TypeError on \<^verbatim>\<open>null\<close> and \<^verbatim>\<open>undefined\<close>, the property of an
  object (the last one of that name in the JSON text), and \<^verbatim>\<open>undefined\<close> on every other
  value, none of which has a property of these names.
\<close>

fun get_prop :: "jsval \<Rightarrow> string \<Rightarrow> js_error + jsval" where
  "get_prop JUndefined k = Inl (JsError (''Cannot read properties of undefined (reading '' @ k @ '')''))"
| "get_prop JNull k = Inl (JsError (''Cannot read properties of null (reading '' @ k @ '')''))"
| "get_prop (JObj kvs) k = Inr (case map_of (rev kvs) k of None \<Rightarrow> JUndefined | Some v \<Rightarrow> v)"
| "get_prop v k = Inr JUndefined"

fun isArray :: "jsval \<Rightarrow> bool" where
  "isArray (JArr xs) = True"
| "isArray v = False"

text \<open>\<^verbatim>\<open>haystack.includes(needle)\<close> on strings.\<close>

fun starts_with :: "string \<Rightarrow> string \<Rightarrow> bool" where
  "starts_with [] s = True"
| "starts_with (c # cs) [] = False"
| "starts_with (c # cs) (d # ds) = (c = d \<and> starts_with cs ds)"

fun includes_str :: "string \<Rightarrow> string \<Rightarrow> bool" where
  "includes_str [] needle = (needle = [])"
| "includes_str (c # cs) needle = (starts_with needle (c # cs) \<or> includes_str cs needle)"

text \<open>The decimal text of a number in a template literal.\<close>

fun string_of_nat :: "nat \<Rightarrow> string" where
  "string_of_nat n =
     (if n < 10 then [char_of (48 + n)]
      else string_of_nat (n div 10) @ [char_of (48 + n mod 10)])"

declare string_of_nat.simps [simp del]

section \<open>The page and the world around it\<close>

type_synonym conn = nat
type_synonym media = nat

text \<open>A \<^verbatim>\<open>Response\<close> of \<^verbatim>\<open>fetch\<close>; \<^verbatim>\<open>body\<close> is what \<^verbatim>\<open>response.json()\<close> settles to.\<close>

record response =
  status :: nat
  statusText :: string
  body :: "js_error + jsval"

definition ok :: "response \<Rightarrow> bool" where
  "ok r = (200 \<le> status r \<and> status r \<le> 299)"

text \<open>
  What the browser, the network and the inference SDK answer during one run of a handler:
  each field is the outcome of one call, \<open>Inl\<close> when the call throws or its promise rejects.
\<close>

record world =
  workflow_fetch :: "js_error + response"
  turn_fetch :: "js_error + response"
  camera :: "js_error + media"
  negotiation :: "js_error + conn"
  remote :: "js_error + media"
  playback :: "js_error + unit"
  release :: "js_error + unit"

datatype level = Log | Warn | Err

text \<open>
  The calls this code makes on the outside. \<open>UseStream\<close> carries the source stream, the
  workflow specification and the ICE-server list of \<^verbatim>\<open>wrtcParams\<close>; the other parameters
  of that call are constants of the source.
\<close>

datatype call =
    Fetch string
  | UseCamera
  | UseStream media jsval "jsval list"
  | RemoteStream conn
  | Play
  | Cleanup conn
  | Alert string

text \<open>
  The module-level variables and the DOM properties the handlers write, and three records
  kept beside them: the console (level and leading text of each entry), the calls made,
  the camera streams obtained from \<^verbatim>\<open>streams.useCamera\<close> and not since handed back by a
  \<^verbatim>\<open>cleanup()\<close> that returned (\<open>capture_handles\<close>), and the connections
  \<^verbatim>\<open>webrtc.useStream\<close> has returned (\<open>sessions\<close>).
\<close>

record page =
  activeConnection :: "conn option"
  WORKFLOW_SPEC :: jsval
  startBtn_disabled :: bool
  stopBtn_disabled :: bool
  statusEl_textContent :: string
  videoEl_srcObject :: "media option"
  videoEl_controls :: bool
  console :: "(level \<times> string) list"
  calls :: "call list"
  capture_handles :: nat
  sessions :: "conn list"

section \<open>Statements, exceptions and awaits\<close>

text \<open>
  A piece of code takes the page and gives the page it leaves with either its value
  (\<open>Inr\<close>) or the exception it threw (\<open>Inl\<close>). An \<^verbatim>\<open>async\<close> function is run from
  its call to its completion; \<open>await\<close> takes the outcome of the awaited promise.
\<close>

type_synonym 'a js = "page \<Rightarrow> (js_error + 'a) \<times> page"

definition ret :: "'a \<Rightarrow> 'a js" where
  "ret x = (\<lambda>s. (Inr x, s))"

definition throw :: "js_error \<Rightarrow> 'a js" where
  "throw e = (\<lambda>s. (Inl e, s))"

definition await :: "js_error + 'a \<Rightarrow> 'a js" where
  "await r = (\<lambda>s. (r, s))"

definition bnd :: "'a js \<Rightarrow> ('a \<Rightarrow> 'b js) \<Rightarrow> 'b js" where
  "bnd m f = (\<lambda>s. case m s of (Inl e, s') \<Rightarrow> (Inl e, s') | (Inr x, s') \<Rightarrow> f x s')"

definition seq :: "unit js \<Rightarrow> 'a js \<Rightarrow> 'a js" where
  "seq m n = bnd m (\<lambda>_. n)"

fun block :: "unit js list \<Rightarrow> unit js" where
  "block [] = ret ()"
| "block (m # ms) = seq m (block ms)"

definition try_catch :: "'a js \<Rightarrow> (js_error \<Rightarrow> 'a js) \<Rightarrow> 'a js" where
  "try_catch m h = (\<lambda>s. case m s of (Inl e, s') \<Rightarrow> h e s' | (Inr x, s') \<Rightarrow> (Inr x, s'))"

text \<open>The \<^verbatim>\<open>finally\<close> block runs on every exit and, unless it throws itself, keeps the outcome.\<close>

definition try_catch_finally :: "'a js \<Rightarrow> (js_error \<Rightarrow> 'a js) \<Rightarrow> unit js \<Rightarrow> 'a js" where
  "try_catch_finally m h f =
     (\<lambda>s. case try_catch m h s of
        (r, s') \<Rightarrow> (case f s' of (Inl e, s'') \<Rightarrow> (Inl e, s'') | (Inr _, s'') \<Rightarrow> (r, s'')))"

definition modify :: "(page \<Rightarrow> page) \<Rightarrow> unit js" where
  "modify f = (\<lambda>s. (Inr (), f s))"

definition console_out :: "level \<Rightarrow> string \<Rightarrow> unit js" where
  "console_out l text = modify (\<lambda>s. s\<lparr>console := console s @ [(l, text)]\<rparr>)"

definition outside :: "call \<Rightarrow> unit js" where
  "outside c = modify (\<lambda>s. s\<lparr>calls := calls s @ [c]\<rparr>)"

definition fetch :: "string \<Rightarrow> js_error + response \<Rightarrow> response js" where
  "fetch url outcome = seq (outside (Fetch url)) (await outcome)"

definition json :: "response \<Rightarrow> jsval js" where
  "json r = await (body r)"

section \<open>app.js\<close>

definition loadWorkflowSpec :: "world \<Rightarrow> jsval js" where
  "loadWorkflowSpec w = (\<lambda>s.
     if truthy (WORKFLOW_SPEC s) then ret (WORKFLOW_SPEC s) s
     else
       try_catch
         (bnd (fetch ''/back_squat_workflow.json'' (workflow_fetch w)) (\<lambda>response.
            if \<not> ok response then
              throw (JsError (''Failed to load workflow: '' @ string_of_nat (status response)
                               @ '' '' @ statusText response))
            else
              bnd (json response) (\<lambda>doc.
              seq (modify (\<lambda>s. s\<lparr>WORKFLOW_SPEC := doc\<rparr>))
             (seq (console_out Log ''[UI] Workflow loaded successfully'')
                  (\<lambda>s. ret (WORKFLOW_SPEC s) s)))))
         (\<lambda>error.
            seq (console_out Err ''[UI] Failed to load workflow:'')
                (throw error))
         s)"

definition getTurnCredentials :: "world \<Rightarrow> jsval js" where
  "getTurnCredentials w =
     try_catch
       (seq (console_out Log ''[UI] Fetching TURN credentials...'')
       (bnd (fetch ''/api/webrtc_turn_config'' (turn_fetch w)) (\<lambda>response.
          if \<not> ok response then
            throw (JsError (''Failed to fetch TURN config: '' @ string_of_nat (status response)
                             @ '' '' @ statusText response))
          else
            bnd (json response) (\<lambda>turnConfig.
            seq (console_out Log ''[UI] Raw TURN config from API:'')
           (bnd (await (get_prop turnConfig ''urls'')) (\<lambda>urls.
            if \<not> truthy urls then
              seq (console_out Err ''[UI] Invalid TURN config: missing urls field'')
                  (ret JNull)
            else
              bnd (await (get_prop turnConfig ''username'')) (\<lambda>username.
              bnd (if \<not> truthy username then ret JUndefined
                   else await (get_prop turnConfig ''credential'')) (\<lambda>credential.
              if \<not> truthy username \<or> \<not> truthy credential then
                seq (console_out Err ''[UI] Invalid TURN config: missing username or credential'')
                    (ret JNull)
              else
                let urls' = (if isArray urls then urls else JArr [urls]);
                    iceServer = JObj [(''urls'', urls'),
                                      (''username'', username),
                                      (''credential'', credential)]
                in seq (console_out Log ''[UI] Converted ICE server config:'')
                       (ret iceServer)))))))))
       (\<lambda>error.
          seq (console_out Err ''[UI] Failed to fetch TURN credentials:'')
              (ret JNull))"

definition setStatus :: "string \<Rightarrow> unit js" where
  "setStatus text =
     seq (modify (\<lambda>s. s\<lparr>statusEl_textContent := text\<rparr>))
         (console_out Log (''[UI Status] '' @ text))"

text \<open>The local \<^verbatim>\<open>iceServers\<close> of \<^verbatim>\<open>connectWebcamToRoboflowWebRTC\<close>, after the push.\<close>

definition iceServers :: "jsval \<Rightarrow> jsval list" where
  "iceServers turnServer =
     [JObj [(''urls'', JArr [JStr ''stun:stun.l.google.com:19302''])]]
     @ (if truthy turnServer then [turnServer] else [])"

definition useCamera :: "world \<Rightarrow> media js" where
  "useCamera w =
     seq (outside UseCamera)
    (bnd (await (camera w)) (\<lambda>source.
     seq (modify (\<lambda>s. s\<lparr>capture_handles := Suc (capture_handles s)\<rparr>))
         (ret source)))"

definition useStream :: "world \<Rightarrow> media \<Rightarrow> jsval \<Rightarrow> jsval list \<Rightarrow> conn js" where
  "useStream w source workflowSpec ice =
     seq (outside (UseStream source workflowSpec ice))
    (bnd (await (negotiation w)) (\<lambda>connection.
     seq (modify (\<lambda>s. s\<lparr>sessions := sessions s @ [connection]\<rparr>))
         (ret connection)))"

text \<open>
  \<open>options_workflowSpec\<close> is \<^verbatim>\<open>options.workflowSpec\<close>, \<open>JUndefined\<close> when the caller gives
  none. \<^verbatim>\<open>options.onData\<close> only logs the messages it is given, and
  \<^verbatim>\<open>connectors.withProxyUrl\<close> only builds the connector object; the camera is opened
  before \<^verbatim>\<open>webrtc.useStream\<close> is called, as an argument of that call.
\<close>

definition connectWebcamToRoboflowWebRTC :: "jsval \<Rightarrow> world \<Rightarrow> conn js" where
  "connectWebcamToRoboflowWebRTC options_workflowSpec w =
     bnd (if truthy options_workflowSpec then ret options_workflowSpec
          else loadWorkflowSpec w) (\<lambda>workflowSpec.
     bnd (getTurnCredentials w) (\<lambda>turnServer.
     seq (if truthy turnServer
          then console_out Log ''[UI] Using TURN server for enhanced NAT traversal''
          else console_out Warn ''[UI] TURN server unavailable, using STUN only'')
    (seq (console_out Log ''[UI] Final ICE servers configuration:'')
    (bnd (useCamera w) (\<lambda>source.
     bnd (useStream w source workflowSpec (iceServers turnServer)) (\<lambda>connection.
     ret connection))))))"

text \<open>
  \<^verbatim>\<open>start\<close> in parts: the statements before the \<^verbatim>\<open>try\<close> statement (\<open>start_begin\<close>) and
  the \<^verbatim>\<open>try\<close> statement (\<open>start_connect\<close>), in which the call suspends at each
  \<^verbatim>\<open>await\<close> and other handlers can run before \<open>activeConnection\<close> is assigned.
\<close>

definition start_begin :: "unit js" where
  "start_begin =
     seq (modify (\<lambda>s. s\<lparr>startBtn_disabled := True\<rparr>))
         (setStatus ''Connecting...'')"

text \<open>The \<^verbatim>\<open>catch\<close> block of \<^verbatim>\<open>start\<close>.\<close>

definition start_failed :: "js_error \<Rightarrow> unit js" where
  "start_failed err =
     block [
       console_out Err ''[UI] Connection failed:'',
       if includes_str (message err) ''API key'' then
         seq (setStatus ''Error: Server API key not configured'')
             (outside (Alert ''Server configuration error. Please check that ROBOFLOW_API_KEY is set in the .env file.''))
       else
         setStatus (''Error: '' @ message err),
       modify (\<lambda>s. s\<lparr>startBtn_disabled := False\<rparr>),
       modify (\<lambda>s. s\<lparr>activeConnection := None\<rparr>)]"

text \<open>The \<^verbatim>\<open>try\<close> block of \<^verbatim>\<open>start\<close> from the assignment of \<open>activeConnection\<close> on.\<close>

definition start_connected :: "world \<Rightarrow> conn \<Rightarrow> unit js" where
  "start_connected w connection =
     seq (modify (\<lambda>s. s\<lparr>activeConnection := Some connection\<rparr>))
    (bnd (seq (outside (RemoteStream connection)) (await (remote w))) (\<lambda>remoteStream.
     block [
       modify (\<lambda>s. s\<lparr>videoEl_srcObject := Some remoteStream\<rparr>),
       modify (\<lambda>s. s\<lparr>videoEl_controls := False\<rparr>),
       try_catch
         (seq (outside Play)
         (seq (await (playback w))
              (console_out Log ''[UI] Video playing'')))
         (\<lambda>err. console_out Warn ''[UI] Autoplay failed:''),
       setStatus ''Connected - Processing video'',
       modify (\<lambda>s. s\<lparr>stopBtn_disabled := False\<rparr>),
       console_out Log ''[UI] Successfully connected!'']))"

definition start_connect :: "world \<Rightarrow> unit js" where
  "start_connect w =
     try_catch
       (bnd (connectWebcamToRoboflowWebRTC JUndefined w) (start_connected w))
       start_failed"

definition start :: "world \<Rightarrow> unit js" where
  "start w = (\<lambda>s.
     if activeConnection s \<noteq> None then
       console_out Warn ''Already connected'' s
     else
       seq start_begin (start_connect w) s)"

text \<open>
  \<^verbatim>\<open>start\<close> from an idle page up to its first \<^verbatim>\<open>await\<close>, where the call first returns
  to the event loop: after the statements before the \<^verbatim>\<open>try\<close> it enters
  \<^verbatim>\<open>connectWebcamToRoboflowWebRTC\<close>, which is given no \<^verbatim>\<open>options.workflowSpec\<close> and
  calls \<^verbatim>\<open>loadWorkflowSpec\<close>; that returns the cached document or calls \<^verbatim>\<open>fetch\<close> for
  the workflow, and the result is awaited.
\<close>

definition start_first_await :: "unit js" where
  "start_first_await =
     seq start_begin
         (\<lambda>s. if truthy (WORKFLOW_SPEC s) then ret () s
              else outside (Fetch ''/back_squat_workflow.json'') s)"

definition stop :: "world \<Rightarrow> unit js" where
  "stop w = (\<lambda>s.
     case activeConnection s of
       None \<Rightarrow> ret () s
     | Some connection \<Rightarrow>
         block [
           modify (\<lambda>s. s\<lparr>stopBtn_disabled := True\<rparr>),
           setStatus ''Stopping...'',
           try_catch_finally
             (block [
                outside (Cleanup connection),
                await (release w),
                modify (\<lambda>s. s\<lparr>capture_handles := capture_handles s - 1\<rparr>),
                console_out Log ''[UI] Cleanup complete''])
             (\<lambda>err. console_out Err ''[UI] Cleanup error:'')
             (block [
                modify (\<lambda>s. s\<lparr>activeConnection := None\<rparr>),
                modify (\<lambda>s. s\<lparr>videoEl_srcObject := None\<rparr>),
                modify (\<lambda>s. s\<lparr>startBtn_disabled := False\<rparr>),
                modify (\<lambda>s. s\<lparr>stopBtn_disabled := True\<rparr>),
                setStatus ''Idle''])] s)"

text \<open>
  \<^verbatim>\<open>startBtn.addEventListener("click", start)\<close> and the same for \<^verbatim>\<open>stopBtn\<close>: the two
  functions are local to the module and run only as these listeners, and a disabled button
  dispatches no click event.
\<close>

definition click_startBtn :: "world \<Rightarrow> unit js" where
  "click_startBtn w = (\<lambda>s. if startBtn_disabled s then ret () s else start w s)"

definition click_stopBtn :: "world \<Rightarrow> unit js" where
  "click_stopBtn w = (\<lambda>s. if stopBtn_disabled s then ret () s else stop w s)"

section \<open>Observations on a page\<close>

text \<open>What the recorded calls say: the URLs fetched and the ICE-server lists handed to
  \<^verbatim>\<open>webrtc.useStream\<close>, in order.\<close>

fun fetched :: "call \<Rightarrow> string list" where
  "fetched (Fetch url) = [url]"
| "fetched c = []"

definition fetches :: "page \<Rightarrow> string list" where
  "fetches s = concat (map fetched (calls s))"

fun ice_of :: "call \<Rightarrow> jsval list list" where
  "ice_of (UseStream source workflowSpec ice) = [ice]"
| "ice_of c = []"

definition ice_lists :: "page \<Rightarrow> jsval list list" where
  "ice_lists s = concat (map ice_of (calls s))"

fun cleaned :: "call \<Rightarrow> conn list" where
  "cleaned (Cleanup c) = [c]"
| "cleaned c = []"

definition cleanups :: "page \<Rightarrow> conn list" where
  "cleanups s = concat (map cleaned (calls s))"

definition workflow_fetches :: "page \<Rightarrow> nat" where
  "workflow_fetches s = length (filter (\<lambda>url. url = ''/back_squat_workflow.json'') (fetches s))"

text \<open>The names of the properties of an object.\<close>

fun property_names :: "jsval \<Rightarrow> string list" where
  "property_names (JObj kvs) = map fst kvs"
| "property_names v = []"

fun all_strings :: "jsval \<Rightarrow> bool" where
  "all_strings (JArr xs) = list_all (\<lambda>x. case x of JStr t \<Rightarrow> True | _ \<Rightarrow> False) xs"
| "all_strings v = False"

definition stun_entry :: jsval where
  "stun_entry = JObj [(''urls'', JArr [JStr ''stun:stun.l.google.com:19302''])]"

text \<open>
  A property counts as missing from a TURN response when reading it fails or gives a
  value that converts to false: absent, \<^verbatim>\<open>null\<close>, \<^verbatim>\<open>false\<close>, \<^verbatim>\<open>0\<close> or the empty string.
\<close>

definition missing :: "jsval \<Rightarrow> string \<Rightarrow> bool" where
  "missing cfg k = (case get_prop cfg k of Inl e \<Rightarrow> True | Inr v \<Rightarrow> \<not> truthy v)"

text \<open>
  The TURN fetch gives no usable credentials: the transport failed, the status is not 2xx,
  the body is not JSON, or \<^verbatim>\<open>urls\<close>, \<^verbatim>\<open>username\<close> or \<^verbatim>\<open>credential\<close> is missing.
\<close>

definition turn_unavailable :: "js_error + response \<Rightarrow> bool" where
  "turn_unavailable outcome =
     (case outcome of
        Inl e \<Rightarrow> True
      | Inr r \<Rightarrow>
          \<not> ok r \<or>
          (case body r of
             Inl e \<Rightarrow> True
           | Inr cfg \<Rightarrow> missing cfg ''urls'' \<or> missing cfg ''username'' \<or> missing cfg ''credential''))"

text \<open>The workflow fetch fails: transport error, a status that is not 2xx, or a body that is
  not JSON.\<close>

definition workflow_fetch_fails :: "js_error + response \<Rightarrow> bool" where
  "workflow_fetch_fails outcome =
     (case outcome of
        Inl e \<Rightarrow> True
      | Inr r \<Rightarrow> \<not> ok r \<or> (case body r of Inl e \<Rightarrow> True | Inr doc \<Rightarrow> False))"

text \<open>The workflow specification is at hand for a connection attempt: cached, or fetched now.\<close>

definition workflow_resolves :: "world \<Rightarrow> page \<Rightarrow> bool" where
  "workflow_resolves w s = (truthy (WORKFLOW_SPEC s) \<or> \<not> workflow_fetch_fails (workflow_fetch w))"

text \<open>What \<^verbatim>\<open>getTurnCredentials\<close> returns and logs in a world, read off a run of it.\<close>

definition blank :: page where
  "blank = \<lparr>activeConnection = None, WORKFLOW_SPEC = JNull, startBtn_disabled = False,
     stopBtn_disabled = False, statusEl_textContent = [], videoEl_srcObject = None,
     videoEl_controls = False, console = [], calls = [], capture_handles = 0, sessions = []\<rparr>"

definition turn_value :: "world \<Rightarrow> jsval" where
  "turn_value w = (case fst (getTurnCredentials w blank) of Inl e \<Rightarrow> JNull | Inr v \<Rightarrow> v)"

definition turn_console :: "world \<Rightarrow> (level \<times> string) list" where
  "turn_console w = console (snd (getTurnCredentials w blank))"

definition connect_console :: "world \<Rightarrow> (level \<times> string) list" where
  "connect_console w = turn_console w @
     [if truthy (turn_value w)
      then (Log, ''[UI] Using TURN server for enhanced NAT traversal'')
      else (Warn, ''[UI] TURN server unavailable, using STUN only''),
      (Log, ''[UI] Final ICE servers configuration:'')]"

text \<open>Handler runs one after the other, each to its completion.\<close>

datatype event = Start world | Stop world | ClickStart world | ClickStop world

fun handle :: "event \<Rightarrow> page \<Rightarrow> page" where
  "handle (Start w) s = snd (start w s)"
| "handle (Stop w) s = snd (stop w s)"
| "handle (ClickStart w) s = snd (click_startBtn w s)"
| "handle (ClickStop w) s = snd (click_stopBtn w s)"

fun run :: "event list \<Rightarrow> page \<Rightarrow> page" where
  "run [] s = s"
| "run (e # es) s = run es (handle e s)"

section \<open>Example pages and worlds\<close>

text \<open>The page as the script finds it: no connection, no cached workflow, start enabled,
  stop disabled.\<close>

definition page0 :: page where
  "page0 = \<lparr>activeConnection = None, WORKFLOW_SPEC = JNull, startBtn_disabled = False,
     stopBtn_disabled = True, statusEl_textContent = ''Idle'', videoEl_srcObject = None,
     videoEl_controls = False, console = [], calls = [], capture_handles = 0, sessions = []\<rparr>"

definition workflow_doc :: jsval where
  "workflow_doc = JObj [(''version'', JStr ''1.0''), (''steps'', JArr [])]"

definition turn_doc :: jsval where
  "turn_doc = JObj [(''urls'', JStr ''turn:turn.example.org:3478''), (''username'', JStr ''user''),
     (''credential'', JStr ''secret''), (''ttl'', JNum 3600)]"

definition ok_response :: "jsval \<Rightarrow> response" where
  "ok_response doc = \<lparr>status = 200, statusText = ''OK'', body = Inr doc\<rparr>"

definition world_ok :: world where
  "world_ok = \<lparr>workflow_fetch = Inr (ok_response workflow_doc),
     turn_fetch = Inr (ok_response turn_doc), camera = Inr 1, negotiation = Inr 10,
     remote = Inr 2, playback = Inr (), release = Inr ()\<rparr>"

text \<open>A TURN response without \<^verbatim>\<open>username\<close>.\<close>

definition world_turn_malformed :: world where
  "world_turn_malformed = world_ok\<lparr>turn_fetch := Inr (ok_response
     (JObj [(''urls'', JArr [JStr ''turn:turn.example.org:3478'']),
            (''credential'', JStr ''secret'')]))\<rparr>"

text \<open>A page with connection 10 active, as a successful \<^verbatim>\<open>start\<close> leaves it.\<close>

definition page_connected :: page where
  "page_connected = page0\<lparr>activeConnection := Some 10, WORKFLOW_SPEC := workflow_doc,
     startBtn_disabled := True, stopBtn_disabled := False,
     statusEl_textContent := ''Connected - Processing video'', videoEl_srcObject := Some 2,
     capture_handles := 1, sessions := [10]\<rparr>"

text \<open>The negotiation is refused.\<close>

definition world_negotiation_fails :: world where
  "world_negotiation_fails = world_ok\<lparr>negotiation := Inl (JsError ''offer rejected'')\<rparr>"

text \<open>A TURN response whose \<^verbatim>\<open>urls\<close> is a number.\<close>

definition world_numeric_urls :: world where
  "world_numeric_urls = world_ok\<lparr>turn_fetch := Inr (ok_response
     (JObj [(''urls'', JNum 5), (''username'', JStr ''user''), (''credential'', JStr ''secret'')]))\<rparr>"

text \<open>A TURN response whose \<^verbatim>\<open>urls\<close> is the empty array.\<close>

definition world_empty_urls :: world where
  "world_empty_urls = world_ok\<lparr>turn_fetch := Inr (ok_response
     (JObj [(''urls'', JArr []), (''username'', JStr ''user''), (''credential'', JStr ''secret'')]))\<rparr>"

text \<open>The workflow fetch fails in transport; it delivers a body that is not JSON.\<close>

definition world_offline :: world where
  "world_offline = world_ok\<lparr>workflow_fetch := Inl (JsError ''Failed to fetch'')\<rparr>"

definition world_workflow_garbled :: world where
  "world_workflow_garbled = world_ok\<lparr>workflow_fetch :=
     Inr \<lparr>status = 200, statusText = ''OK'', body = Inl (JsError ''Unexpected token <'')\<rparr>\<rparr>"

section \<open>The backend\<close>

text \<open>
  Modelled from the spec: \<^verbatim>\<open>server.js\<close>, the backend that holds the API key and serves
  \<^verbatim>\<open>GET /api/health\<close> and \<^verbatim>\<open>POST /api/init-webrtc\<close>, is not among the sources; only its
  caller \<^verbatim>\<open>app.js\<close> and its description are. The environment holds a secret API key
  (absent when not configured), an optional override of the remote base URL, a port and a
  runtime-mode flag.
\<close>

record server_env =
  api_key :: "string option"
  api_base_url :: "string option"
  port :: nat
  production :: bool

record health_response =
  health_status :: string
  apiKeyConfigured :: bool
  health_message :: string

text \<open>
  Modelled from the spec: the Health Endpoint answers \<^verbatim>\<open>{status, apiKeyConfigured, message}\<close>,
  with a boolean presence flag for the key. The spec does not give the texts; they are
  taken as functions of that flag.
\<close>

definition health :: "(bool \<Rightarrow> string) \<Rightarrow> (bool \<Rightarrow> string) \<Rightarrow> server_env \<Rightarrow> health_response" where
  "health status_text message_text env =
     \<lparr>health_status = status_text (api_key env \<noteq> None),
      apiKeyConfigured = (api_key env \<noteq> None),
      health_message = message_text (api_key env \<noteq> None)\<rparr>"

datatype failure = ConfigurationFault | InvalidRequest | NegotiationFailure

record proxy_request =
  offer_sdp :: string
  offer_type :: string
  wrtcParams :: jsval

text \<open>
  Modelled from the spec: the input constraints of the Credential Proxy, \<^verbatim>\<open>offer.sdp\<close>
  non-empty, \<^verbatim>\<open>offer.type\<close> equal to \<^verbatim>\<open>offer\<close>, and \<^verbatim>\<open>wrtcParams\<close> naming an image input
  and at least one output.
\<close>

definition names_outputs :: "jsval \<Rightarrow> string \<Rightarrow> bool" where
  "names_outputs params k = (case get_prop params k of Inr (JArr (x # xs)) \<Rightarrow> True | _ \<Rightarrow> False)"

definition valid_request :: "proxy_request \<Rightarrow> bool" where
  "valid_request req =
     (offer_sdp req \<noteq> [] \<and> offer_type req = ''offer''
      \<and> \<not> missing (wrtcParams req) ''imageInputName''
      \<and> (names_outputs (wrtcParams req) ''streamOutputNames''
         \<or> names_outputs (wrtcParams req) ''dataOutputNames''))"

text \<open>
  Modelled from the spec: the Credential Proxy. Without a key it refuses and forwards
  nothing; otherwise it forwards a valid request with the key attached to the remote
  service (\<open>remote\<close>) and returns its answer as it is, or a classified failure. The second
  component lists the requests sent to the remote service, each with the key attached.
\<close>

definition init_webrtc ::
  "server_env \<Rightarrow> (string \<Rightarrow> proxy_request \<Rightarrow> js_error + jsval) \<Rightarrow> proxy_request
     \<Rightarrow> (failure + jsval) \<times> (string \<times> proxy_request) list" where
  "init_webrtc env remote_service req =
     (case api_key env of
        None \<Rightarrow> (Inl ConfigurationFault, [])
      | Some key \<Rightarrow>
          if \<not> valid_request req then (Inl InvalidRequest, [])
          else
            (case remote_service key req of
               Inl e \<Rightarrow> (Inl NegotiationFailure, [(key, req)])
             | Inr answer \<Rightarrow> (Inr answer, [(key, req)])))"

definition env_unconfigured :: server_env where
  "env_unconfigured = \<lparr>api_key = None, api_base_url = None, port = 3000, production = False\<rparr>"

definition request0 :: proxy_request where
  "request0 = \<lparr>offer_sdp = ''v=0'', offer_type = ''offer'',
     wrtcParams = JObj [(''imageInputName'', JStr ''image''),
                        (''streamOutputNames'', JArr [JStr ''bounding_box_visualization''])]\<rparr>"

section \<open>What each function does to the page\<close>

lemmas js_defs = ret_def throw_def await_def bnd_def seq_def try_catch_def
  try_catch_finally_def modify_def console_out_def outside_def fetch_def json_def
  setStatus_def

lemma getTurnCredentials_eq:
  "getTurnCredentials w s =
     (Inr (turn_value w),
      s\<lparr>console := console s @ turn_console w,
        calls := calls s @ [Fetch ''/api/webrtc_turn_config'']\<rparr>)"
  by (simp add: turn_value_def turn_console_def getTurnCredentials_def js_defs Let_def blank_def
      split: sum.splits)

lemma loadWorkflowSpec_cached:
  "truthy (WORKFLOW_SPEC s) \<Longrightarrow> loadWorkflowSpec w s = (Inr (WORKFLOW_SPEC s), s)"
  by (simp add: loadWorkflowSpec_def ret_def)

lemma loadWorkflowSpec_fetch:
  "\<not> truthy (WORKFLOW_SPEC s) \<Longrightarrow>
   loadWorkflowSpec w s =
     (case workflow_fetch w of
        Inl e \<Rightarrow> (Inl e, s\<lparr>calls := calls s @ [Fetch ''/back_squat_workflow.json''],
                     console := console s @ [(Err, ''[UI] Failed to load workflow:'')]\<rparr>)
      | Inr r \<Rightarrow>
          if \<not> ok r then
            (Inl (JsError (''Failed to load workflow: '' @ string_of_nat (status r) @ '' '' @ statusText r)),
             s\<lparr>calls := calls s @ [Fetch ''/back_squat_workflow.json''],
               console := console s @ [(Err, ''[UI] Failed to load workflow:'')]\<rparr>)
          else
            (case body r of
               Inl e \<Rightarrow> (Inl e, s\<lparr>calls := calls s @ [Fetch ''/back_squat_workflow.json''],
                     console := console s @ [(Err, ''[UI] Failed to load workflow:'')]\<rparr>)
             | Inr doc \<Rightarrow> (Inr doc, s\<lparr>calls := calls s @ [Fetch ''/back_squat_workflow.json''],
                     WORKFLOW_SPEC := doc,
                     console := console s @ [(Log, ''[UI] Workflow loaded successfully'')]\<rparr>)))"
  by (simp add: loadWorkflowSpec_def js_defs split: sum.splits)

lemma connect_eq:
  "connectWebcamToRoboflowWebRTC JUndefined w s =
     (case loadWorkflowSpec w s of
        (Inl e, t) \<Rightarrow> (Inl e, t)
      | (Inr doc, t) \<Rightarrow>
          (case camera w of
             Inl e \<Rightarrow>
               (Inl e, t\<lparr>console := console t @ connect_console w,
                          calls := calls t @ [Fetch ''/api/webrtc_turn_config'', UseCamera]\<rparr>)
           | Inr m \<Rightarrow>
               (case negotiation w of
                  Inl e \<Rightarrow>
                    (Inl e, t\<lparr>console := console t @ connect_console w,
                      calls := calls t @ [Fetch ''/api/webrtc_turn_config'', UseCamera,
                                          UseStream m doc (iceServers (turn_value w))],
                      capture_handles := Suc (capture_handles t)\<rparr>)
                | Inr c \<Rightarrow>
                    (Inr c, t\<lparr>console := console t @ connect_console w,
                      calls := calls t @ [Fetch ''/api/webrtc_turn_config'', UseCamera,
                                          UseStream m doc (iceServers (turn_value w))],
                      capture_handles := Suc (capture_handles t),
                      sessions := sessions t @ [c]\<rparr>))))"
  by (simp add: connectWebcamToRoboflowWebRTC_def getTurnCredentials_eq useCamera_def useStream_def
      connect_console_def js_defs split: sum.splits prod.splits)

lemma start_connected_eq:
  "start_connected w c t =
     (case remote w of
        Inl e \<Rightarrow> (Inl e, t\<lparr>activeConnection := Some c, calls := calls t @ [RemoteStream c]\<rparr>)
      | Inr r \<Rightarrow>
          (Inr (), t\<lparr>activeConnection := Some c,
             calls := calls t @ [RemoteStream c, Play],
             videoEl_srcObject := Some r,
             videoEl_controls := False,
             statusEl_textContent := ''Connected - Processing video'',
             stopBtn_disabled := False,
             console := console t @
               [case playback w of Inl e \<Rightarrow> (Warn, ''[UI] Autoplay failed:'')
                                 | Inr u \<Rightarrow> (Log, ''[UI] Video playing''),
                (Log, ''[UI Status] Connected - Processing video''),
                (Log, ''[UI] Successfully connected!'')]\<rparr>))"
  by (simp add: start_connected_def js_defs split: sum.splits)

lemma start_failed_eq:
  "start_failed e t =
     (Inr (), t\<lparr>console := console t @
                  [(Err, ''[UI] Connection failed:''),
                   (Log, ''[UI Status] '' @
                      (if includes_str (message e) ''API key''
                       then ''Error: Server API key not configured''
                       else ''Error: '' @ message e))],
                statusEl_textContent :=
                  (if includes_str (message e) ''API key''
                   then ''Error: Server API key not configured''
                   else ''Error: '' @ message e),
                calls := calls t @
                  (if includes_str (message e) ''API key''
                   then [Alert ''Server configuration error. Please check that ROBOFLOW_API_KEY is set in the .env file.'']
                   else []),
                startBtn_disabled := False,
                activeConnection := None\<rparr>)"
  by (simp add: start_failed_def js_defs)

lemma start_connect_eq:
  "start_connect w s =
     (case connectWebcamToRoboflowWebRTC JUndefined w s of
        (Inl e, t) \<Rightarrow> start_failed e t
      | (Inr c, t) \<Rightarrow>
          (case start_connected w c t of
             (Inl e, u) \<Rightarrow> start_failed e u
           | (Inr x, u) \<Rightarrow> (Inr x, u)))"
  by (simp add: start_connect_def bnd_def try_catch_def split: sum.splits prod.splits)

lemma start_begin_eq:
  "start_begin s = (Inr (), s\<lparr>startBtn_disabled := True, statusEl_textContent := ''Connecting...'',
     console := console s @ [(Log, ''[UI Status] Connecting...'')]\<rparr>)"
  by (simp add: start_begin_def js_defs)

lemma start_eq:
  "activeConnection s = None \<Longrightarrow> start w s = start_connect w (snd (start_begin s))"
  by (simp add: start_def seq_def bnd_def start_begin_eq)

lemma turn_value_unavailable:
  "turn_unavailable (turn_fetch w) \<Longrightarrow> turn_value w = JNull"
  by (auto simp add: turn_value_def turn_unavailable_def missing_def getTurnCredentials_def js_defs Let_def
      split: sum.splits)

lemma load_resolves:
  assumes "workflow_resolves w s"
  shows "\<exists>doc l cs. loadWorkflowSpec w s =
           (Inr doc, s\<lparr>WORKFLOW_SPEC := doc, console := console s @ l, calls := calls s @ cs\<rparr>)
         \<and> (cs = [] \<or> cs = [Fetch ''/back_squat_workflow.json''])"
proof (cases "truthy (WORKFLOW_SPEC s)")
  case True
  then have "loadWorkflowSpec w s =
      (Inr (WORKFLOW_SPEC s), s\<lparr>WORKFLOW_SPEC := WORKFLOW_SPEC s, console := console s @ [], calls := calls s @ []\<rparr>)"
    by (simp add: loadWorkflowSpec_cached)
  then show ?thesis by blast
next
  case False
  with assms obtain r doc where r: "workflow_fetch w = Inr r" "ok r" "body r = Inr doc"
    by (auto simp add: workflow_resolves_def workflow_fetch_fails_def split: sum.splits)
  with False have "loadWorkflowSpec w s =
      (Inr doc, s\<lparr>WORKFLOW_SPEC := doc,
          console := console s @ [(Log, ''[UI] Workflow loaded successfully'')],
          calls := calls s @ [Fetch ''/back_squat_workflow.json'']\<rparr>)"
    by (simp add: loadWorkflowSpec_fetch)
  then show ?thesis by blast
qed

lemma start_unfold:
  "activeConnection s = None \<Longrightarrow>
   start w s = start_connect w (s\<lparr>startBtn_disabled := True,
     statusEl_textContent := ''Connecting...'',
     console := console s @ [(Log, ''[UI Status] Connecting...'')]\<rparr>)"
  by (simp add: start_eq start_begin_eq)

lemma connect_cache:
  "WORKFLOW_SPEC (snd (connectWebcamToRoboflowWebRTC JUndefined w s)) = WORKFLOW_SPEC (snd (loadWorkflowSpec w s))
 \<and> workflow_fetches (snd (connectWebcamToRoboflowWebRTC JUndefined w s)) = workflow_fetches (snd (loadWorkflowSpec w s))"
  by (cases "loadWorkflowSpec w s")
     (simp add: connect_eq workflow_fetches_def fetches_def split: sum.splits)

lemma start_failed_cache:
  "WORKFLOW_SPEC (snd (start_failed e t)) = WORKFLOW_SPEC t
 \<and> workflow_fetches (snd (start_failed e t)) = workflow_fetches t"
  by (simp add: start_failed_eq workflow_fetches_def fetches_def)

lemma start_connected_cache:
  "WORKFLOW_SPEC (snd (start_connected w c t)) = WORKFLOW_SPEC t
 \<and> workflow_fetches (snd (start_connected w c t)) = workflow_fetches t"
  by (simp add: start_connected_eq workflow_fetches_def fetches_def split: sum.splits)

lemma start_connect_cache:
  "WORKFLOW_SPEC (snd (start_connect w s)) = WORKFLOW_SPEC (snd (loadWorkflowSpec w s))
 \<and> workflow_fetches (snd (start_connect w s)) = workflow_fetches (snd (loadWorkflowSpec w s))"
proof (cases "connectWebcamToRoboflowWebRTC JUndefined w s")
  case (Pair r t)
  then have t: "WORKFLOW_SPEC t = WORKFLOW_SPEC (snd (loadWorkflowSpec w s))"
      "workflow_fetches t = workflow_fetches (snd (loadWorkflowSpec w s))"
    using connect_cache [of w s] by simp_all
  show ?thesis
  proof (cases r)
    case (Inl e)
    with Pair t show ?thesis
      by (simp add: start_connect_eq start_failed_cache)
  next
    case (Inr c)
    obtain r' u where D: "start_connected w c t = (r', u)" by force
    then have u: "WORKFLOW_SPEC u = WORKFLOW_SPEC t" "workflow_fetches u = workflow_fetches t"
      using start_connected_cache [of w c t] by simp_all
    from Pair Inr D t u show ?thesis
      by (cases r') (simp_all add: start_connect_eq start_failed_cache)
  qed
qed

lemma load_cache_hit:
  "truthy (WORKFLOW_SPEC s) \<Longrightarrow>
   WORKFLOW_SPEC (snd (loadWorkflowSpec w s)) = WORKFLOW_SPEC s
 \<and> workflow_fetches (snd (loadWorkflowSpec w s)) = workflow_fetches s"
  by (simp add: loadWorkflowSpec_cached)

lemma load_cache_miss:
  "\<not> truthy (WORKFLOW_SPEC s) \<Longrightarrow>
   workflow_fetches (snd (loadWorkflowSpec w s)) = Suc (workflow_fetches s)"
  by (simp add: loadWorkflowSpec_fetch workflow_fetches_def fetches_def split: sum.splits)

lemma workflow_fetches_begin:
  "workflow_fetches (s\<lparr>startBtn_disabled := a, statusEl_textContent := b, console := c\<rparr>)
     = workflow_fetches s"
  by (simp add: workflow_fetches_def fetches_def)

lemma start_cache_hit:
  assumes "truthy (WORKFLOW_SPEC s)"
  shows "WORKFLOW_SPEC (snd (start w s)) = WORKFLOW_SPEC s
       \<and> workflow_fetches (snd (start w s)) = workflow_fetches s"
proof (cases "activeConnection s")
  case None
  then show ?thesis
    using assms
    by (simp add: start_unfold start_connect_cache loadWorkflowSpec_cached workflow_fetches_begin)
next
  case (Some c)
  then show ?thesis
    by (simp add: start_def console_out_def modify_def workflow_fetches_def fetches_def)
qed

lemma start_cache_miss:
  assumes "\<not> truthy (WORKFLOW_SPEC s)" "activeConnection s = None"
  shows "workflow_fetches (snd (start w s)) = Suc (workflow_fetches s)"
  using assms
  by (simp add: start_unfold start_connect_cache load_cache_miss workflow_fetches_begin)

lemma stop_cache:
  "WORKFLOW_SPEC (snd (stop w s)) = WORKFLOW_SPEC s
 \<and> workflow_fetches (snd (stop w s)) = workflow_fetches s"
  by (simp add: stop_def js_defs workflow_fetches_def fetches_def split: option.splits sum.splits)

lemma handle_cache_hit:
  "truthy (WORKFLOW_SPEC s) \<Longrightarrow>
   WORKFLOW_SPEC (handle e s) = WORKFLOW_SPEC s \<and> workflow_fetches (handle e s) = workflow_fetches s"
  by (cases e) (simp_all add: start_cache_hit stop_cache click_startBtn_def click_stopBtn_def ret_def)

lemma run_cache_hit:
  "truthy (WORKFLOW_SPEC s) \<Longrightarrow>
   WORKFLOW_SPEC (run es s) = WORKFLOW_SPEC s \<and> workflow_fetches (run es s) = workflow_fetches s"
proof (induction es arbitrary: s)
  case Nil
  then show ?case by simp
next
  case (Cons e es)
  from Cons.prems have h: "WORKFLOW_SPEC (handle e s) = WORKFLOW_SPEC s"
      "workflow_fetches (handle e s) = workflow_fetches s"
    using handle_cache_hit [of s e] by simp_all
  with Cons.prems have "truthy (WORKFLOW_SPEC (handle e s))" by simp
  from Cons.IH [OF this] h show ?case by simp
qed

lemma load_frame:
  "activeConnection (snd (loadWorkflowSpec w s)) = activeConnection s
 \<and> startBtn_disabled (snd (loadWorkflowSpec w s)) = startBtn_disabled s
 \<and> stopBtn_disabled (snd (loadWorkflowSpec w s)) = stopBtn_disabled s
 \<and> statusEl_textContent (snd (loadWorkflowSpec w s)) = statusEl_textContent s
 \<and> videoEl_srcObject (snd (loadWorkflowSpec w s)) = videoEl_srcObject s
 \<and> capture_handles (snd (loadWorkflowSpec w s)) = capture_handles s
 \<and> sessions (snd (loadWorkflowSpec w s)) = sessions s
 \<and> cleanups (snd (loadWorkflowSpec w s)) = cleanups s
 \<and> ice_lists (snd (loadWorkflowSpec w s)) = ice_lists s"
  by (cases "truthy (WORKFLOW_SPEC s)")
     (simp_all add: loadWorkflowSpec_cached loadWorkflowSpec_fetch cleanups_def ice_lists_def
        split: sum.splits)

lemma start_connected_state:
  assumes "activeConnection s = None" "activeConnection (snd (start w s)) = Some c"
  shows "startBtn_disabled (snd (start w s)) \<and> sessions (snd (start w s)) = sessions s @ [c]"
proof -
  let ?s1 = "s\<lparr>startBtn_disabled := True, statusEl_textContent := ''Connecting...'',
     console := console s @ [(Log, ''[UI Status] Connecting...'')]\<rparr>"
  obtain r t where L: "loadWorkflowSpec w ?s1 = (r, t)" by force
  with load_frame [of w ?s1]
  have t: "startBtn_disabled t" "sessions t = sessions s" by simp_all
  from assms(2) have "activeConnection (snd (start_connect w ?s1)) = Some c"
    using assms(1) by (simp add: start_unfold)
  then show ?thesis
    using assms(1) t
    by (simp add: start_unfold start_connect_eq connect_eq L start_connected_eq start_failed_eq
        split: sum.splits)
qed

lemmas eval_defs = start_unfold start_connect_eq connect_eq loadWorkflowSpec_cached
  loadWorkflowSpec_fetch start_connected_eq start_failed_eq start_begin_eq
  turn_value_def connect_console_def turn_console_def getTurnCredentials_def js_defs Let_def
  blank_def iceServers_def stun_entry_def world_ok_def page0_def ok_response_def ok_def
  workflow_doc_def turn_doc_def

lemma turn_value_available:
  assumes "\<not> turn_unavailable (turn_fetch w)"
  shows "\<exists>r cfg u un cr. turn_fetch w = Inr r \<and> ok r \<and> body r = Inr cfg
     \<and> get_prop cfg ''urls'' = Inr u \<and> truthy u
     \<and> get_prop cfg ''username'' = Inr un \<and> truthy un
     \<and> get_prop cfg ''credential'' = Inr cr \<and> truthy cr
     \<and> turn_value w = JObj [(''urls'', if isArray u then u else JArr [u]),
                              (''username'', un), (''credential'', cr)]"
  using assms
  by (auto simp add: turn_value_def turn_unavailable_def missing_def getTurnCredentials_def js_defs Let_def
      split: sum.splits)

lemma isArray_iff: "isArray v \<longleftrightarrow> (\<exists>xs. v = JArr xs)"
  by (cases v) simp_all

lemma load_fails:
  assumes "\<not> truthy (WORKFLOW_SPEC s)" "workflow_fetch_fails (workflow_fetch w)"
  shows "\<exists>e l. loadWorkflowSpec w s =
     (Inl e, s\<lparr>console := console s @ l, calls := calls s @ [Fetch ''/back_squat_workflow.json'']\<rparr>)"
proof -
  have "\<exists>e. loadWorkflowSpec w s =
     (Inl e, s\<lparr>console := console s @ [(Err, ''[UI] Failed to load workflow:'')],
               calls := calls s @ [Fetch ''/back_squat_workflow.json'']\<rparr>)"
    using assms
    by (auto simp add: loadWorkflowSpec_fetch workflow_fetch_fails_def split: sum.splits)
  then show ?thesis by blast
qed

lemma start_first_await_eq:
  "start_first_await s =
     (Inr (), s\<lparr>startBtn_disabled := True, statusEl_textContent := ''Connecting...'',
        console := console s @ [(Log, ''[UI Status] Connecting...'')],
        calls := calls s @ (if truthy (WORKFLOW_SPEC s) then []
                           else [Fetch ''/back_squat_workflow.json''])\<rparr>)"
  by (simp add: start_first_await_def start_begin_eq js_defs)

lemma load_calls:
  "calls (snd (loadWorkflowSpec w p)) =
     calls p @ (if truthy (WORKFLOW_SPEC p) then [] else [Fetch ''/back_squat_workflow.json''])"
  by (cases "truthy (WORKFLOW_SPEC p)")
     (simp_all add: loadWorkflowSpec_cached loadWorkflowSpec_fetch split: sum.splits)

lemma connect_frame:
  "startBtn_disabled (snd (connectWebcamToRoboflowWebRTC JUndefined w p)) = startBtn_disabled p
 \<and> activeConnection (snd (connectWebcamToRoboflowWebRTC JUndefined w p)) = activeConnection p
 \<and> (\<exists>cs. calls (snd (connectWebcamToRoboflowWebRTC JUndefined w p))
            = calls (snd (loadWorkflowSpec w p)) @ cs)"
proof (cases "loadWorkflowSpec w p")
  case (Pair r t)
  with load_frame [of w p]
  have "startBtn_disabled t = startBtn_disabled p" "activeConnection t = activeConnection p"
    by simp_all
  with Pair show ?thesis
    by (simp add: connect_eq split: sum.splits)
qed

lemma start_failed_calls: "\<exists>cs. calls (snd (start_failed e t)) = calls t @ cs"
  by (simp add: start_failed_eq)

lemma start_connected_calls: "\<exists>cs. calls (snd (start_connected w c t)) = calls t @ cs"
  by (simp add: start_connected_eq split: sum.splits)

lemma start_connect_calls:
  "\<exists>cs. calls (snd (start_connect w p)) = calls (snd (loadWorkflowSpec w p)) @ cs"
proof (cases "connectWebcamToRoboflowWebRTC JUndefined w p")
  case (Pair r t)
  with connect_frame [of w p] obtain cs where
    t: "calls t = calls (snd (loadWorkflowSpec w p)) @ cs" by auto
  show ?thesis
  proof (cases r)
    case (Inl e)
    from start_failed_calls [of e t] obtain ds where "calls (snd (start_failed e t)) = calls t @ ds"
      by blast
    with Pair Inl t show ?thesis
      by (simp add: start_connect_eq)
  next
    case (Inr c)
    obtain r' u where D: "start_connected w c t = (r', u)" by force
    with start_connected_calls [of w c t] obtain ds where u: "calls u = calls t @ ds"
      by auto
    show ?thesis
    proof (cases r')
      case (Inl e)
      from start_failed_calls [of e u] obtain es where "calls (snd (start_failed e u)) = calls u @ es"
        by blast
      with Pair Inr D Inl t u show ?thesis
        by (simp add: start_connect_eq)
    next
      case r: (Inr x)
      with Pair Inr D t u show ?thesis
        by (simp add: start_connect_eq)
    qed
  qed
qed

lemma start_extends_first_await:
  assumes "activeConnection s = None"
  shows "\<exists>cs. calls (snd (start w s)) = calls (snd (start_first_await s)) @ cs"
proof -
  let ?p = "s\<lparr>startBtn_disabled := True, statusEl_textContent := ''Connecting...'',
     console := console s @ [(Log, ''[UI Status] Connecting...'')]\<rparr>"
  from start_connect_calls [of w ?p] obtain cs where
    "calls (snd (start_connect w ?p)) = calls (snd (loadWorkflowSpec w ?p)) @ cs" by blast
  then have "calls (snd (start w s)) = calls (snd (start_first_await s)) @ cs"
    using assms by (simp add: start_unfold load_calls start_first_await_eq)
  then show ?thesis by blast
qed

section \<open>Stopping\<close>

text \<open>
  C7. A stop request with a connection active calls \<^verbatim>\<open>cleanup()\<close> on it, and whatever
  that call does, \<^verbatim>\<open>stop\<close> throws nothing and leaves the page idle: no connection handle,
  no media on the video element, the start button enabled, the status text Idle. When
  \<^verbatim>\<open>cleanup()\<close> throws, the error goes to the console.
\<close>

theorem stop_completes_teardown:
  assumes "activeConnection s = Some c"
  shows "fst (stop w s) = Inr ()
       \<and> calls (snd (stop w s)) = calls s @ [Cleanup c]
       \<and> activeConnection (snd (stop w s)) = None
       \<and> videoEl_srcObject (snd (stop w s)) = None
       \<and> \<not> startBtn_disabled (snd (stop w s))
       \<and> statusEl_textContent (snd (stop w s)) = ''Idle''
       \<and> (\<forall>e. release w = Inl e \<longrightarrow>
            console (snd (stop w s)) = console s @
              [(Log, ''[UI Status] Stopping...''), (Err, ''[UI] Cleanup error:''),
               (Log, ''[UI Status] Idle'')])"
  using assms by (simp add: stop_def js_defs split: sum.splits)

theorem stop_completes_teardown_witness:
  "activeConnection page_connected = Some 10
   \<and> release (world_ok\<lparr>release := Inl (JsError ''closed'')\<rparr>) = Inl (JsError ''closed'')
   \<and> fst (stop (world_ok\<lparr>release := Inl (JsError ''closed'')\<rparr>) page_connected) = Inr ()
   \<and> activeConnection (snd (stop (world_ok\<lparr>release := Inl (JsError ''closed'')\<rparr>) page_connected)) = None
   \<and> console (snd (stop (world_ok\<lparr>release := Inl (JsError ''closed'')\<rparr>) page_connected)) =
       [(Log, ''[UI Status] Stopping...''), (Err, ''[UI] Cleanup error:''),
        (Log, ''[UI Status] Idle'')]"
  using stop_completes_teardown [of page_connected 10 "world_ok\<lparr>release := Inl (JsError ''closed'')\<rparr>"]
  by (simp add: page_connected_def page0_def world_ok_def)

text \<open>
  C8. \<^verbatim>\<open>stop\<close> with no connection active returns at once: nothing is called and the page
  is as before. Two \<^verbatim>\<open>stop\<close> calls in a row with a connection active call \<^verbatim>\<open>cleanup()\<close>
  once: the second call finds no connection and changes nothing.
\<close>

theorem stop_idempotent:
  "(activeConnection s = None \<longrightarrow> stop w s = (Inr (), s))
   \<and> (activeConnection s = Some c \<longrightarrow>
        stop w' (snd (stop w s)) = (Inr (), snd (stop w s))
      \<and> cleanups (snd (stop w' (snd (stop w s)))) = cleanups s @ [c])"
  by (simp add: stop_def js_defs cleanups_def split: sum.splits)

theorem stop_idempotent_witness:
  "activeConnection page0 = None \<and> stop world_ok page0 = (Inr (), page0)
   \<and> activeConnection page_connected = Some 10
   \<and> cleanups (snd (stop world_ok (snd (stop world_ok page_connected)))) = [10]"
  using stop_idempotent [of page0 world_ok 10 world_ok]
        stop_idempotent [of page_connected world_ok 10 world_ok]
  by (simp add: page_connected_def page0_def world_ok_def cleanups_def stop_def js_defs)

section \<open>Starting\<close>

text \<open>
  C1. \<^verbatim>\<open>start\<close> runs only as the click listener of the start button. When a first start
  request has found the page idle, a second request is a no-op both while Connecting and
  while Connected. Connecting: at the first \<^verbatim>\<open>await\<close> of \<^verbatim>\<open>start\<close> (a page whose calls
  the whole run of \<^verbatim>\<open>start\<close> extends), when \<^verbatim>\<open>loadWorkflowSpec\<close> has ended and when
  \<^verbatim>\<open>connectWebcamToRoboflowWebRTC\<close> has ended, the button is disabled and a click leaves
  the page as it is. Connected: when \<^verbatim>\<open>start\<close> has ended with connection \<open>c\<close> active,
  exactly that one connection has been created, a click leaves the page as it is, and
  \<^verbatim>\<open>start\<close> itself, were it called, only logs a warning: it makes no call and creates no
  connection. Two clicks in a row are the first click alone.
\<close>

theorem duplicate_start_request_is_noop:
  assumes "activeConnection s = None"
  shows "click_startBtn w' (snd (start_first_await s)) = (Inr (), snd (start_first_await s))
       \<and> (\<exists>cs. calls (snd (start w s)) = calls (snd (start_first_await s)) @ cs)
       \<and> click_startBtn w' (snd (loadWorkflowSpec w (snd (start_begin s))))
           = (Inr (), snd (loadWorkflowSpec w (snd (start_begin s))))
       \<and> click_startBtn w' (snd (connectWebcamToRoboflowWebRTC JUndefined w (snd (start_begin s))))
           = (Inr (), snd (connectWebcamToRoboflowWebRTC JUndefined w (snd (start_begin s))))
       \<and> (activeConnection (snd (start w s)) = Some c \<longrightarrow>
            sessions (snd (start w s)) = sessions s @ [c]
          \<and> click_startBtn w' (snd (start w s)) = (Inr (), snd (start w s))
          \<and> start w' (snd (start w s)) =
              (Inr (), (snd (start w s))\<lparr>console := console (snd (start w s))
                                              @ [(Warn, ''Already connected'')]\<rparr>)
          \<and> sessions (snd (start w' (snd (start w s)))) = sessions s @ [c]
          \<and> calls (snd (start w' (snd (start w s)))) = calls (snd (start w s))
          \<and> (\<not> startBtn_disabled s \<longrightarrow>
               run [ClickStart w, ClickStart w'] s = snd (start w s)))"
proof -
  have 1: "click_startBtn w' (snd (start_first_await s)) = (Inr (), snd (start_first_await s))"
    by (simp add: start_first_await_eq click_startBtn_def ret_def)
  have 2: "\<exists>cs. calls (snd (start w s)) = calls (snd (start_first_await s)) @ cs"
    using assms by (rule start_extends_first_await)
  have b: "startBtn_disabled (snd (start_begin s))"
    by (simp add: start_begin_eq)
  with load_frame [of w "snd (start_begin s)"]
  have "startBtn_disabled (snd (loadWorkflowSpec w (snd (start_begin s))))" by simp
  then have 3: "click_startBtn w' (snd (loadWorkflowSpec w (snd (start_begin s))))
           = (Inr (), snd (loadWorkflowSpec w (snd (start_begin s))))"
    by (simp add: click_startBtn_def ret_def)
  from b connect_frame [of w "snd (start_begin s)"]
  have "startBtn_disabled (snd (connectWebcamToRoboflowWebRTC JUndefined w (snd (start_begin s))))"
    by simp
  then have 4: "click_startBtn w' (snd (connectWebcamToRoboflowWebRTC JUndefined w (snd (start_begin s))))
           = (Inr (), snd (connectWebcamToRoboflowWebRTC JUndefined w (snd (start_begin s))))"
    by (simp add: click_startBtn_def ret_def)
  have 5: "sessions (snd (start w s)) = sessions s @ [c]
          \<and> click_startBtn w' (snd (start w s)) = (Inr (), snd (start w s))
          \<and> start w' (snd (start w s)) =
              (Inr (), (snd (start w s))\<lparr>console := console (snd (start w s))
                                              @ [(Warn, ''Already connected'')]\<rparr>)
          \<and> sessions (snd (start w' (snd (start w s)))) = sessions s @ [c]
          \<and> calls (snd (start w' (snd (start w s)))) = calls (snd (start w s))
          \<and> (\<not> startBtn_disabled s \<longrightarrow>
               run [ClickStart w, ClickStart w'] s = snd (start w s))"
    if conn: "activeConnection (snd (start w s)) = Some c"
  proof -
    from start_connected_state [OF assms conn]
    have d: "startBtn_disabled (snd (start w s))"
      and se: "sessions (snd (start w s)) = sessions s @ [c]" by simp_all
    from d have cl: "click_startBtn w' (snd (start w s)) = (Inr (), snd (start w s))"
      by (simp add: click_startBtn_def ret_def)
    from conn have g: "start w' (snd (start w s)) =
              (Inr (), (snd (start w s))\<lparr>console := console (snd (start w s))
                                              @ [(Warn, ''Already connected'')]\<rparr>)"
      by (simp add: start_def console_out_def modify_def)
    from g se have s2: "sessions (snd (start w' (snd (start w s)))) = sessions s @ [c]"
      by simp
    from g have c2: "calls (snd (start w' (snd (start w s)))) = calls (snd (start w s))"
      by simp
    have r: "run [ClickStart w, ClickStart w'] s = snd (start w s)" if "\<not> startBtn_disabled s"
      using that cl by (simp add: click_startBtn_def)
    from se cl g s2 c2 r show ?thesis by blast
  qed
  from 1 2 3 4 5 show ?thesis by blast
qed

theorem duplicate_start_request_is_noop_witness:
  "activeConnection page0 = None
   \<and> \<not> startBtn_disabled page0
   \<and> activeConnection (snd (start world_ok page0)) = Some 10
   \<and> calls (snd (start_first_await page0)) = [Fetch ''/back_squat_workflow.json'']
   \<and> click_startBtn world_ok (snd (start_first_await page0)) = (Inr (), snd (start_first_await page0))
   \<and> sessions (snd (start world_ok page0)) = [10]
   \<and> sessions (snd (start world_ok (snd (start world_ok page0)))) = [10]
   \<and> sessions (run [ClickStart world_ok, ClickStart world_ok] page0) = [10]"
  using duplicate_start_request_is_noop [of page0 world_ok world_ok 10]
  by (simp add: eval_defs start_first_await_eq)

text \<open>
  C2 (as amended). When a \<^verbatim>\<open>start\<close> from the idle page has the workflow at hand, opens the
  camera and then sees the negotiation fail, it throws nothing and leaves the page idle: no
  connection handle, no connection recorded, the start button enabled and the failure in the
  status text. It makes no \<^verbatim>\<open>cleanup()\<close> call: the camera stream it obtained went straight
  into \<^verbatim>\<open>webrtc.useStream\<close> and this code holds no reference to it.
\<close>

theorem negotiation_failure_returns_to_idle:
  assumes "activeConnection s = None" "workflow_resolves w s"
      "camera w = Inr m" "negotiation w = Inl e"
  shows "fst (start w s) = Inr ()
     \<and> activeConnection (snd (start w s)) = None
     \<and> sessions (snd (start w s)) = sessions s
     \<and> \<not> startBtn_disabled (snd (start w s))
     \<and> statusEl_textContent (snd (start w s)) =
         (if includes_str (message e) ''API key''
          then ''Error: Server API key not configured'' else ''Error: '' @ message e)
     \<and> cleanups (snd (start w s)) = cleanups s
     \<and> capture_handles (snd (start w s)) = Suc (capture_handles s)"
proof -
  let ?s1 = "s\<lparr>startBtn_disabled := True, statusEl_textContent := ''Connecting...'',
     console := console s @ [(Log, ''[UI Status] Connecting...'')]\<rparr>"
  from assms(2) have "workflow_resolves w ?s1"
    by (simp add: workflow_resolves_def)
  from load_resolves [OF this] obtain doc l cs where
    L: "loadWorkflowSpec w ?s1 =
          (Inr doc, ?s1\<lparr>WORKFLOW_SPEC := doc, console := console ?s1 @ l, calls := calls ?s1 @ cs\<rparr>)"
    and cs: "cs = [] \<or> cs = [Fetch ''/back_squat_workflow.json'']"
    by blast
  from cs have cl: "concat (map cleaned cs) = []" by auto
  show ?thesis
    using assms(1,3,4) cl
    by (simp add: start_unfold start_connect_eq connect_eq L start_failed_eq cleanups_def)
qed

theorem negotiation_failure_returns_to_idle_witness:
  "activeConnection page0 = None
   \<and> workflow_resolves world_negotiation_fails page0
   \<and> camera world_negotiation_fails = Inr 1
   \<and> negotiation world_negotiation_fails = Inl (JsError ''offer rejected'')
   \<and> fst (start world_negotiation_fails page0) = Inr ()
   \<and> activeConnection (snd (start world_negotiation_fails page0)) = None
   \<and> \<not> startBtn_disabled (snd (start world_negotiation_fails page0))
   \<and> statusEl_textContent (snd (start world_negotiation_fails page0)) = ''Error: offer rejected''"
  using negotiation_failure_returns_to_idle
    [of page0 world_negotiation_fails 1 "JsError ''offer rejected''"]
  by (simp add: world_negotiation_fails_def world_ok_def page0_def ok_response_def ok_def
      workflow_resolves_def workflow_fetch_fails_def)

text \<open>
  C2 as stated fails: after the failed negotiation the camera stream obtained by
  \<^verbatim>\<open>streams.useCamera\<close> is still counted, and the calls made end with
  \<^verbatim>\<open>webrtc.useStream\<close>.
\<close>

theorem camera_kept_after_failed_negotiation_counterexample:
  "camera world_negotiation_fails = Inr 1
   \<and> negotiation world_negotiation_fails = Inl (JsError ''offer rejected'')
   \<and> capture_handles page0 = 0
   \<and> capture_handles (snd (start world_negotiation_fails page0)) = 1
   \<and> calls (snd (start world_negotiation_fails page0)) =
       [Fetch ''/back_squat_workflow.json'', Fetch ''/api/webrtc_turn_config'', UseCamera,
        UseStream 1 workflow_doc
          [stun_entry,
           JObj [(''urls'', JArr [JStr ''turn:turn.example.org:3478'']),
                 (''username'', JStr ''user''), (''credential'', JStr ''secret'')]]]"
  by (simp add: eval_defs world_negotiation_fails_def)

section \<open>TURN credentials and the ICE-server list\<close>

text \<open>
  C4. When the TURN fetch fails in transport, answers with a status that is not 2xx or with
  a body that is not JSON, or when \<^verbatim>\<open>urls\<close>, \<^verbatim>\<open>username\<close> or \<^verbatim>\<open>credential\<close> is missing
  from the response, \<^verbatim>\<open>getTurnCredentials\<close> returns \<^verbatim>\<open>null\<close> and throws nothing. A
  \<^verbatim>\<open>start\<close> from the idle page then hands \<^verbatim>\<open>webrtc.useStream\<close> the STUN entry alone, and
  with the workflow at hand, the camera opened, the negotiation successful and the remote
  stream delivered it ends connected.
\<close>

theorem turn_unavailable_degrades_to_stun:
  assumes "turn_unavailable (turn_fetch w)" "activeConnection s = None" "workflow_resolves w s"
      "camera w = Inr m" "negotiation w = Inr c" "remote w = Inr r"
  shows "fst (getTurnCredentials w s) = Inr JNull
     \<and> fst (start w s) = Inr ()
     \<and> ice_lists (snd (start w s)) = ice_lists s @ [[stun_entry]]
     \<and> activeConnection (snd (start w s)) = Some c
     \<and> videoEl_srcObject (snd (start w s)) = Some r
     \<and> statusEl_textContent (snd (start w s)) = ''Connected - Processing video''
     \<and> \<not> stopBtn_disabled (snd (start w s))"
proof -
  let ?s1 = "s\<lparr>startBtn_disabled := True, statusEl_textContent := ''Connecting...'',
     console := console s @ [(Log, ''[UI Status] Connecting...'')]\<rparr>"
  from assms(3) have "workflow_resolves w ?s1"
    by (simp add: workflow_resolves_def)
  from load_resolves [OF this] obtain doc l cs where
    L: "loadWorkflowSpec w ?s1 =
          (Inr doc, ?s1\<lparr>WORKFLOW_SPEC := doc, console := console ?s1 @ l, calls := calls ?s1 @ cs\<rparr>)"
    and cs: "cs = [] \<or> cs = [Fetch ''/back_squat_workflow.json'']"
    by blast
  from cs have ice: "concat (map ice_of cs) = []" by auto
  have tv: "turn_value w = JNull"
    using assms(1) by (rule turn_value_unavailable)
  show ?thesis
    using assms(2,4,5,6) ice
    by (simp add: start_unfold start_connect_eq connect_eq L start_connected_eq tv
        getTurnCredentials_eq ice_lists_def iceServers_def stun_entry_def)
qed

theorem turn_unavailable_degrades_to_stun_witness:
  "turn_unavailable (turn_fetch world_turn_malformed)
   \<and> activeConnection page0 = None
   \<and> workflow_resolves world_turn_malformed page0
   \<and> camera world_turn_malformed = Inr 1
   \<and> negotiation world_turn_malformed = Inr 10
   \<and> remote world_turn_malformed = Inr 2
   \<and> fst (getTurnCredentials world_turn_malformed page0) = Inr JNull
   \<and> ice_lists (snd (start world_turn_malformed page0)) = [[stun_entry]]
   \<and> activeConnection (snd (start world_turn_malformed page0)) = Some 10"
  using turn_unavailable_degrades_to_stun [of world_turn_malformed page0 1 10 2]
  by (simp add: world_turn_malformed_def world_ok_def page0_def ok_response_def ok_def
      turn_unavailable_def missing_def workflow_resolves_def workflow_fetch_fails_def
      ice_lists_def)

text \<open>
  C3 (as amended). In every ICE-server list built from what \<^verbatim>\<open>getTurnCredentials\<close>
  returns, every entry has a \<^verbatim>\<open>urls\<close> array, and that array is empty only when the TURN
  response itself gave \<^verbatim>\<open>urls\<close> as the empty array; the only properties of an entry are
  \<^verbatim>\<open>urls\<close>, \<^verbatim>\<open>username\<close> and \<^verbatim>\<open>credential\<close>, so none has \<^verbatim>\<open>ttl\<close>; an entry with
  \<^verbatim>\<open>username\<close> or \<^verbatim>\<open>credential\<close> has both, each converting to true and so not the empty
  string. The list is the STUN entry alone when the TURN fetch gives no usable credentials,
  and the STUN entry followed by the TURN entry otherwise.
\<close>

theorem ice_servers_entries:
  assumes "fst (getTurnCredentials w s) = Inr v"
  shows "(\<forall>entry \<in> set (iceServers v).
            (\<exists>us. get_prop entry ''urls'' = Inr (JArr us)
               \<and> (us = [] \<longrightarrow> (\<exists>r cfg. turn_fetch w = Inr r \<and> body r = Inr cfg
                                    \<and> get_prop cfg ''urls'' = Inr (JArr []))))
          \<and> set (property_names entry) \<subseteq> {''urls'', ''username'', ''credential''}
          \<and> ''ttl'' \<notin> set (property_names entry)
          \<and> (''username'' \<in> set (property_names entry) \<or> ''credential'' \<in> set (property_names entry) \<longrightarrow>
               (\<exists>un cr. get_prop entry ''username'' = Inr un \<and> truthy un \<and> un \<noteq> JStr []
                      \<and> get_prop entry ''credential'' = Inr cr \<and> truthy cr \<and> cr \<noteq> JStr [])))
       \<and> (turn_unavailable (turn_fetch w) \<longrightarrow> iceServers v = [stun_entry])
       \<and> (\<not> turn_unavailable (turn_fetch w) \<longrightarrow> iceServers v = [stun_entry, v])"
proof -
  from assms have v: "v = turn_value w"
    by (simp add: getTurnCredentials_eq)
  show ?thesis
  proof (cases "turn_unavailable (turn_fetch w)")
    case True
    then have "v = JNull" using v by (simp add: turn_value_unavailable)
    with True show ?thesis
      by (simp add: iceServers_def stun_entry_def)
  next
    case False
    from turn_value_available [OF False] obtain r cfg u un cr where
      f: "turn_fetch w = Inr r" "body r = Inr cfg" "get_prop cfg ''urls'' = Inr u"
         "truthy u" "truthy un" "truthy cr"
      and tv: "turn_value w = JObj [(''urls'', if isArray u then u else JArr [u]),
                              (''username'', un), (''credential'', cr)]"
      by blast
    from f(5,6) have ne: "un \<noteq> JStr []" "cr \<noteq> JStr []" by auto
    show ?thesis
    proof (cases "isArray u")
      case True
      then obtain xs where "u = JArr xs" by (auto simp add: isArray_iff)
      with False v tv f ne show ?thesis
        by (simp add: iceServers_def stun_entry_def)
    next
      case no: False
      with False v tv f ne show ?thesis
        by (simp add: iceServers_def stun_entry_def)
    qed
  qed
qed

theorem ice_servers_entries_witness:
  "fst (getTurnCredentials world_ok page0) =
     Inr (JObj [(''urls'', JArr [JStr ''turn:turn.example.org:3478'']),
                (''username'', JStr ''user''), (''credential'', JStr ''secret'')])
   \<and> \<not> turn_unavailable (turn_fetch world_ok)
   \<and> turn_unavailable (turn_fetch world_turn_malformed)
   \<and> fst (getTurnCredentials world_turn_malformed page0) = Inr JNull
   \<and> iceServers JNull = [stun_entry]
   \<and> iceServers (JObj [(''urls'', JArr [JStr ''turn:turn.example.org:3478'']),
                (''username'', JStr ''user''), (''credential'', JStr ''secret'')]) =
       [stun_entry, JObj [(''urls'', JArr [JStr ''turn:turn.example.org:3478'']),
                (''username'', JStr ''user''), (''credential'', JStr ''secret'')]]"
  using ice_servers_entries [of world_ok page0
      "JObj [(''urls'', JArr [JStr ''turn:turn.example.org:3478'']),
             (''username'', JStr ''user''), (''credential'', JStr ''secret'')]"]
    ice_servers_entries [of world_turn_malformed page0 JNull]
  by (simp add: getTurnCredentials_def js_defs Let_def world_ok_def world_turn_malformed_def
      page0_def ok_response_def ok_def turn_doc_def turn_unavailable_def missing_def
      iceServers_def stun_entry_def)

text \<open>
  C3 as stated fails on \<^verbatim>\<open>urls\<close>: the check \<^verbatim>\<open>!turnConfig.urls\<close> lets the empty array
  through, and the entry with no URL reaches \<^verbatim>\<open>webrtc.useStream\<close>.
\<close>

theorem empty_urls_forwarded_counterexample:
  "fst (getTurnCredentials world_empty_urls page0) =
     Inr (JObj [(''urls'', JArr []), (''username'', JStr ''user''), (''credential'', JStr ''secret'')])
   \<and> ice_lists (snd (start world_empty_urls page0)) =
       [[stun_entry,
         JObj [(''urls'', JArr []), (''username'', JStr ''user''), (''credential'', JStr ''secret'')]]]
   \<and> get_prop (JObj [(''urls'', JArr []), (''username'', JStr ''user''), (''credential'', JStr ''secret'')])
        ''urls'' = Inr (JArr [])"
  by (simp add: eval_defs world_empty_urls_def ice_lists_def)

text \<open>
  C5 (as amended). For a TURN response that passes validation, the entry returned has
  exactly the properties \<^verbatim>\<open>urls\<close>, \<^verbatim>\<open>username\<close> and \<^verbatim>\<open>credential\<close>, whatever else the
  response held; \<^verbatim>\<open>username\<close> and \<^verbatim>\<open>credential\<close> are those of the response; \<^verbatim>\<open>urls\<close> is
  an array: a bare string becomes the array of that one string, as any value that is not an
  array becomes the array of that one value, an array is kept as it is, and for a response
  whose \<^verbatim>\<open>urls\<close> is a string or an array of strings the result is an array of strings.
\<close>

theorem turn_entry_normalized:
  assumes "\<not> turn_unavailable (turn_fetch w)"
  shows "\<exists>r cfg u un cr urls'.
           turn_fetch w = Inr r \<and> body r = Inr cfg
         \<and> get_prop cfg ''urls'' = Inr u
         \<and> get_prop cfg ''username'' = Inr un
         \<and> get_prop cfg ''credential'' = Inr cr
         \<and> fst (getTurnCredentials w s) =
             Inr (JObj [(''urls'', urls'), (''username'', un), (''credential'', cr)])
         \<and> property_names (JObj [(''urls'', urls'), (''username'', un), (''credential'', cr)])
             = [''urls'', ''username'', ''credential'']
         \<and> isArray urls'
         \<and> (\<forall>t. u = JStr t \<longrightarrow> urls' = JArr [JStr t])
         \<and> (isArray u \<longrightarrow> urls' = u)
         \<and> (\<not> isArray u \<longrightarrow> urls' = JArr [u])
         \<and> ((\<exists>t. u = JStr t) \<or> all_strings u \<longrightarrow> all_strings urls')"
proof -
  from turn_value_available [OF assms] obtain r cfg u un cr where
    f: "turn_fetch w = Inr r" "body r = Inr cfg" "get_prop cfg ''urls'' = Inr u"
       "get_prop cfg ''username'' = Inr un" "get_prop cfg ''credential'' = Inr cr"
    and tv: "turn_value w = JObj [(''urls'', if isArray u then u else JArr [u]),
                            (''username'', un), (''credential'', cr)]"
    by blast
  let ?urls = "if isArray u then u else JArr [u]"
  have g: "fst (getTurnCredentials w s) =
      Inr (JObj [(''urls'', ?urls), (''username'', un), (''credential'', cr)])"
    by (simp add: getTurnCredentials_eq tv)
  have a: "isArray ?urls" by simp
  have b: "\<forall>t. u = JStr t \<longrightarrow> ?urls = JArr [JStr t]" by simp
  have c: "isArray u \<longrightarrow> ?urls = u" by simp
  have c': "\<not> isArray u \<longrightarrow> ?urls = JArr [u]" by simp
  have d: "(\<exists>t. u = JStr t) \<or> all_strings u \<longrightarrow> all_strings ?urls" by (cases u) auto
  have e: "property_names (JObj [(''urls'', ?urls), (''username'', un), (''credential'', cr)])
             = [''urls'', ''username'', ''credential'']" by simp
  from f g a b c c' d e show ?thesis by blast
qed

theorem turn_entry_normalized_witness:
  "\<not> turn_unavailable (turn_fetch world_ok)
   \<and> fst (getTurnCredentials world_ok page0) =
       Inr (JObj [(''urls'', JArr [JStr ''turn:turn.example.org:3478'']),
                  (''username'', JStr ''user''), (''credential'', JStr ''secret'')])"
  using turn_entry_normalized [of world_ok page0]
  by (simp add: getTurnCredentials_def js_defs Let_def world_ok_def
      page0_def ok_response_def ok_def turn_doc_def turn_unavailable_def missing_def)

text \<open>
  C5 as stated fails on the type of \<^verbatim>\<open>urls\<close>: validation tests the three properties for
  presence only, so a response with a number for \<^verbatim>\<open>urls\<close> passes, and the entry returned
  holds the array of that number, which is not an array of strings.
\<close>

theorem numeric_urls_counterexample:
  "\<not> turn_unavailable (turn_fetch world_numeric_urls)
   \<and> fst (getTurnCredentials world_numeric_urls page0) =
       Inr (JObj [(''urls'', JArr [JNum 5]), (''username'', JStr ''user''),
                  (''credential'', JStr ''secret'')])
   \<and> \<not> all_strings (JArr [JNum 5])"
  by (simp add: getTurnCredentials_def js_defs Let_def world_numeric_urls_def world_ok_def
      page0_def ok_response_def ok_def turn_unavailable_def missing_def)

section \<open>The workflow specification\<close>

text \<open>
  C9. A workflow document (a JSON object; any value that converts to true) is fetched once:
  the first successful load stores it in \<open>WORKFLOW_SPEC\<close>, and from a page that holds it,
  whatever handlers run afterwards, \<^verbatim>\<open>loadWorkflowSpec\<close> returns that same document and
  leaves the page as it is, the stored document stays the same and no further fetch of the
  workflow URL is made.
\<close>

theorem workflow_loaded_once:
  assumes "truthy doc"
  shows "(\<not> truthy (WORKFLOW_SPEC s) \<and> workflow_fetch w = Inr r \<and> ok r \<and> body r = Inr doc \<longrightarrow>
            fst (loadWorkflowSpec w s) = Inr doc
          \<and> WORKFLOW_SPEC (snd (loadWorkflowSpec w s)) = doc
          \<and> workflow_fetches (snd (loadWorkflowSpec w s)) = Suc (workflow_fetches s)
          \<and> (activeConnection s = None \<longrightarrow>
               WORKFLOW_SPEC (snd (start w s)) = doc
             \<and> workflow_fetches (snd (start w s)) = Suc (workflow_fetches s)))
       \<and> (WORKFLOW_SPEC t = doc \<longrightarrow>
            loadWorkflowSpec w' (run es t) = (Inr doc, run es t)
          \<and> WORKFLOW_SPEC (run es t) = doc
          \<and> workflow_fetches (run es t) = workflow_fetches t)"
proof (intro conjI impI)
  assume a: "\<not> truthy (WORKFLOW_SPEC s) \<and> workflow_fetch w = Inr r \<and> ok r \<and> body r = Inr doc"
  then show "fst (loadWorkflowSpec w s) = Inr doc"
    and "WORKFLOW_SPEC (snd (loadWorkflowSpec w s)) = doc"
    by (simp_all add: loadWorkflowSpec_fetch)
  from a show "workflow_fetches (snd (loadWorkflowSpec w s)) = Suc (workflow_fetches s)"
    by (simp add: load_cache_miss)
  assume idle: "activeConnection s = None"
  from a idle show "WORKFLOW_SPEC (snd (start w s)) = doc"
    by (simp add: start_unfold start_connect_cache loadWorkflowSpec_fetch)
  from a idle show "workflow_fetches (snd (start w s)) = Suc (workflow_fetches s)"
    by (simp add: start_cache_miss)
next
  assume t: "WORKFLOW_SPEC t = doc"
  with assms have tr: "truthy (WORKFLOW_SPEC t)" by simp
  from run_cache_hit [OF tr, of es] t show "WORKFLOW_SPEC (run es t) = doc"
    and "workflow_fetches (run es t) = workflow_fetches t"
    by simp_all
  from run_cache_hit [OF tr, of es] t assms
  show "loadWorkflowSpec w' (run es t) = (Inr doc, run es t)"
    by (simp add: loadWorkflowSpec_cached)
qed

theorem workflow_loaded_once_witness:
  "truthy workflow_doc
   \<and> \<not> truthy (WORKFLOW_SPEC page0)
   \<and> workflow_fetch world_ok = Inr (ok_response workflow_doc)
   \<and> ok (ok_response workflow_doc)
   \<and> body (ok_response workflow_doc) = Inr workflow_doc
   \<and> activeConnection page0 = None
   \<and> WORKFLOW_SPEC page_connected = workflow_doc
   \<and> fst (loadWorkflowSpec world_ok page0) = Inr workflow_doc
   \<and> workflow_fetches (snd (start world_ok page0)) = 1
   \<and> loadWorkflowSpec world_turn_malformed (run [Stop world_ok, Start world_ok] page_connected)
        = (Inr workflow_doc, run [Stop world_ok, Start world_ok] page_connected)
   \<and> workflow_fetches (run [Stop world_ok, Start world_ok] page_connected) = 0"
  using workflow_loaded_once [of workflow_doc page0 world_ok "ok_response workflow_doc"
      page_connected world_turn_malformed "[Stop world_ok, Start world_ok]"]
  by (simp add: workflow_doc_def page0_def page_connected_def world_ok_def ok_response_def
      ok_def workflow_fetches_def fetches_def)

text \<open>
  C10. When the workflow fetch fails (transport error, a status that is not 2xx, or a body
  that is not JSON) with nothing cached, \<^verbatim>\<open>loadWorkflowSpec\<close> throws, the error of the
  transport or of the parser being thrown on as it is, and \<open>WORKFLOW_SPEC\<close> stays as it
  was. A \<^verbatim>\<open>start\<close> that fails this way leaves the page idle with the start button
  enabled, and the next \<^verbatim>\<open>start\<close> fetches the workflow again.
\<close>

theorem failed_workflow_load_not_cached:
  assumes "\<not> truthy (WORKFLOW_SPEC s)" "workflow_fetch_fails (workflow_fetch w)"
  shows "(\<exists>e. fst (loadWorkflowSpec w s) = Inl e)
       \<and> (\<forall>e. workflow_fetch w = Inl e \<longrightarrow> fst (loadWorkflowSpec w s) = Inl e)
       \<and> (\<forall>r e. workflow_fetch w = Inr r \<and> ok r \<and> body r = Inl e \<longrightarrow>
             fst (loadWorkflowSpec w s) = Inl e)
       \<and> WORKFLOW_SPEC (snd (loadWorkflowSpec w s)) = WORKFLOW_SPEC s
       \<and> workflow_fetches (snd (loadWorkflowSpec w s)) = Suc (workflow_fetches s)
       \<and> (activeConnection s = None \<longrightarrow>
            WORKFLOW_SPEC (snd (start w s)) = WORKFLOW_SPEC s
          \<and> activeConnection (snd (start w s)) = None
          \<and> \<not> startBtn_disabled (snd (start w s))
          \<and> workflow_fetches (snd (start w' (snd (start w s)))) =
              Suc (workflow_fetches (snd (start w s))))"
proof -
  from load_fails [OF assms] obtain e l where
    L: "loadWorkflowSpec w s =
     (Inl e, s\<lparr>console := console s @ l, calls := calls s @ [Fetch ''/back_squat_workflow.json'']\<rparr>)"
    by blast
  have 1: "\<exists>e. fst (loadWorkflowSpec w s) = Inl e" using L by simp
  have 2: "\<forall>e. workflow_fetch w = Inl e \<longrightarrow> fst (loadWorkflowSpec w s) = Inl e"
    using assms(1) by (simp add: loadWorkflowSpec_fetch)
  have 3: "\<forall>r e. workflow_fetch w = Inr r \<and> ok r \<and> body r = Inl e \<longrightarrow>
             fst (loadWorkflowSpec w s) = Inl e"
    using assms(1) by (simp add: loadWorkflowSpec_fetch)
  have 4: "WORKFLOW_SPEC (snd (loadWorkflowSpec w s)) = WORKFLOW_SPEC s" using L by simp
  have 5: "workflow_fetches (snd (loadWorkflowSpec w s)) = Suc (workflow_fetches s)"
    using assms(1) by (rule load_cache_miss)
  have 6: "WORKFLOW_SPEC (snd (start w s)) = WORKFLOW_SPEC s
          \<and> activeConnection (snd (start w s)) = None
          \<and> \<not> startBtn_disabled (snd (start w s))
          \<and> workflow_fetches (snd (start w' (snd (start w s)))) =
              Suc (workflow_fetches (snd (start w s)))"
    if idle: "activeConnection s = None"
  proof -
    let ?s1 = "s\<lparr>startBtn_disabled := True, statusEl_textContent := ''Connecting...'',
       console := console s @ [(Log, ''[UI Status] Connecting...'')]\<rparr>"
    from assms have "\<not> truthy (WORKFLOW_SPEC ?s1)" by simp
    from load_fails [OF this assms(2)] obtain e' l' where
      L1: "loadWorkflowSpec w ?s1 =
       (Inl e', ?s1\<lparr>console := console ?s1 @ l', calls := calls ?s1 @ [Fetch ''/back_squat_workflow.json'']\<rparr>)"
      by blast
    have a: "WORKFLOW_SPEC (snd (start w s)) = WORKFLOW_SPEC s"
      and b: "activeConnection (snd (start w s)) = None"
      and c: "\<not> startBtn_disabled (snd (start w s))"
      using idle
      by (simp_all add: start_unfold start_connect_eq connect_eq L1 start_failed_eq)
    from a assms(1) have "\<not> truthy (WORKFLOW_SPEC (snd (start w s)))" by simp
    from start_cache_miss [OF this b] a b c show ?thesis by simp
  qed
  from 1 2 3 4 5 6 show ?thesis by blast
qed

theorem failed_workflow_load_not_cached_witness:
  "\<not> truthy (WORKFLOW_SPEC page0)
   \<and> activeConnection page0 = None
   \<and> workflow_fetch_fails (workflow_fetch world_offline)
   \<and> workflow_fetch_fails (workflow_fetch world_workflow_garbled)
   \<and> fst (loadWorkflowSpec world_offline page0) = Inl (JsError ''Failed to fetch'')
   \<and> fst (loadWorkflowSpec world_workflow_garbled page0) = Inl (JsError ''Unexpected token <'')
   \<and> WORKFLOW_SPEC (snd (start world_offline page0)) = JNull
   \<and> workflow_fetches (snd (start world_offline page0)) = 1
   \<and> workflow_fetches (snd (start world_ok (snd (start world_offline page0)))) = 2"
  using failed_workflow_load_not_cached [of page0 world_offline world_ok]
        failed_workflow_load_not_cached [of page0 world_workflow_garbled world_ok]
  by (simp add: eval_defs world_offline_def world_workflow_garbled_def workflow_fetch_fails_def
      workflow_fetches_def fetches_def)

section \<open>The backend without a key\<close>

text \<open>
  C6. With no API key configured, the health response has \<open>apiKeyConfigured\<close> false, and
  \<^verbatim>\<open>init-webrtc\<close> answers with a configuration fault and sends nothing to the remote
  service. The health response carries a presence flag only: it is the same for any two
  keys.
\<close>

theorem unconfigured_key_refused:
  assumes "api_key env = None"
  shows "\<not> apiKeyConfigured (health status_text message_text env)
       \<and> init_webrtc env remote_service req = (Inl ConfigurationFault, [])
       \<and> health status_text message_text (env\<lparr>api_key := Some k\<rparr>)
           = health status_text message_text (env\<lparr>api_key := Some k'\<rparr>)"
  using assms by (simp add: health_def init_webrtc_def)

theorem unconfigured_key_refused_witness:
  "api_key env_unconfigured = None
   \<and> \<not> apiKeyConfigured (health (\<lambda>b. ''ok'') (\<lambda>b. if b then ''Server is ready'' else ''API key missing'') env_unconfigured)
   \<and> init_webrtc env_unconfigured (\<lambda>key r. Inr JNull) request0 = (Inl ConfigurationFault, [])"
  using unconfigured_key_refused [of env_unconfigured "\<lambda>b. ''ok''"
      "\<lambda>b. if b then ''Server is ready'' else ''API key missing''" "\<lambda>key r. Inr JNull" request0]
  by (simp add: env_unconfigured_def)

end
